theory Spec2Isabelle
  imports Main "HOL-Library.Char_ord" "HOL-Library.List_Lexorder" "HOL-Library.Multiset"
begin

section \<open>EasyBlob: the upload, list, download and delete handlers\<close>

text \<open>
  The development follows \<^verbatim>\<open>blob-storage.ts\<close> (class \<^verbatim>\<open>BlobStorage\<close>) and
  \<^verbatim>\<open>database.ts\<close> (class \<^verbatim>\<open>Database\<close>). The SQLite table, the storage directory,
  the clock and the failures of both substrates are explicit: a handler takes the server
  state and the readings of its environment, and returns the HTTP response, the calls it
  made on the two substrates (in order) and the new state.

  Strings are lists of 8-bit characters; the functions below only ever distinguish the
  ASCII characters \<open>/\<close>, \<open>.\<close>, sign, digits and white space, so every other character
  is opaque to them.
\<close>

subsection \<open>Numbers as the handlers see them\<close>

text \<open>
  A JavaScript number that came out of \<^verbatim>\<open>parseInt\<close>: not-a-number, an infinity, or an
  integer. (Above \<open>2^53\<close> the platform rounds to the nearest double, which is again an
  integer; the model keeps the unrounded integer, and theorems about identifiers that
  make a round trip through text assume them below \<open>2^53\<close>.)
\<close>

datatype number = NaN | PosInfinity | NegInfinity | Num int

definition isNaN :: "number \<Rightarrow> bool" where
  "isNaN x = (x = NaN)"

text \<open>\<^verbatim>\<open>x <= 0\<close>: every comparison with NaN is false.\<close>

fun lessEqZero :: "number \<Rightarrow> bool" where
  "lessEqZero NaN = False"
| "lessEqZero PosInfinity = False"
| "lessEqZero NegInfinity = True"
| "lessEqZero (Num i) = (i \<le> 0)"

fun isInteger :: "number \<Rightarrow> bool" where
  "isInteger (Num i) = True"
| "isInteger x = False"

fun intOf :: "number \<Rightarrow> int" where
  "intOf (Num i) = i"
| "intOf x = 0"

text \<open>
  Conversion of an integer value to a number: a value at or beyond
  \<open>2^1024 - 2^970\<close> (halfway between the largest double and \<open>2^1024\<close>) is infinite.
\<close>

definition toNumber :: "int \<Rightarrow> number" where
  "toNumber m =
     (if 2 ^ 1024 - 2 ^ 970 \<le> m then PosInfinity
      else if m \<le> - (2 ^ 1024 - 2 ^ 970) then NegInfinity
      else Num m)"

subsection \<open>Number to text, and \<^verbatim>\<open>parseInt\<close>\<close>

definition digitChar :: "nat \<Rightarrow> char" where
  "digitChar d = ''0123456789'' ! d"

text \<open>
  The text of a non-negative integer below \<open>10^21\<close>, as string concatenation
  (\<^verbatim>\<open>Date.now() + ext\<close>), a template literal or JSON produce it: its decimal digits.
\<close>

function toDecimal :: "nat \<Rightarrow> string" where
  "toDecimal n =
     (if n < 10 then [digitChar n] else toDecimal (n div 10) @ [digitChar (n mod 10)])"
  by pat_completeness auto
termination
  by (relation "measure (\<lambda>n. n)") auto

declare toDecimal.simps [simp del]

text \<open>
  The white space \<^verbatim>\<open>parseInt\<close> skips, as far as it is ASCII: tab, line feed, vertical tab,
  form feed, carriage return and space. The platform also skips the white space beyond
  ASCII (no-break space, byte order mark, line and paragraph separators and the like);
  an identifier text that starts with one of those is outside this model.
\<close>

definition isWhiteSpace :: "char \<Rightarrow> bool" where
  "isWhiteSpace c =
     (c = CHR 0x09 \<or> c = CHR 0x0A \<or> c = CHR 0x0B \<or> c = CHR 0x0C \<or> c = CHR 0x0D \<or> c = CHR 0x20)"

text \<open>The value of a character as a digit: \<open>0-9\<close>, then \<open>a-z\<close> or \<open>A-Z\<close> for 10 to 35.\<close>

definition digitValue :: "char \<Rightarrow> nat option" where
  "digitValue c =
     (let n = (of_char c :: nat) in
      if 48 \<le> n \<and> n \<le> 57 then Some (n - 48)
      else if 97 \<le> n \<and> n \<le> 122 then Some (n - 87)
      else if 65 \<le> n \<and> n \<le> 90 then Some (n - 55)
      else None)"

definition isRadixDigit :: "nat \<Rightarrow> char \<Rightarrow> bool" where
  "isRadixDigit R c = (case digitValue c of None \<Rightarrow> False | Some v \<Rightarrow> v < R)"

definition radixValue :: "nat \<Rightarrow> string \<Rightarrow> nat" where
  "radixValue R Z = foldl (\<lambda>a c. a * R + the (digitValue c)) 0 Z"

definition stripSign :: "string \<Rightarrow> int \<times> string" where
  "stripSign s =
     (case s of
        [] \<Rightarrow> (1, s)
      | c # r \<Rightarrow> if c = CHR ''-'' then (- 1, r) else if c = CHR ''+'' then (1, r) else (1, s))"

definition stripPrefix :: "string \<Rightarrow> nat \<times> string" where
  "stripPrefix s =
     (if take 2 s = ''0x'' \<or> take 2 s = ''0X'' then (16, drop 2 s) else (10, s))"

text \<open>
  \<^verbatim>\<open>parseInt(string)\<close> with no radix: leading white space is skipped, a sign is read,
  a \<open>0x\<close> prefix selects base 16, and the longest prefix of digits of the base is the
  value; whatever follows the digits is ignored. No digit at all gives NaN.
\<close>

definition parseInt :: "string \<Rightarrow> number" where
  "parseInt str =
     (let (sign, s) = stripSign (dropWhile isWhiteSpace str);
          (R, s') = stripPrefix s;
          Z = takeWhile (isRadixDigit R) s'
      in if Z = [] then NaN else toNumber (sign * int (radixValue R Z)))"

subsection \<open>\<^verbatim>\<open>path.extname\<close>\<close>

text \<open>
  The POSIX \<^verbatim>\<open>path.extname\<close> of the platform: one scan of the path from its last
  character to its first, with the scanner's five variables.
\<close>

record extState =
  startDot :: int
  startPart :: int
  endIdx :: int
  matchedSlash :: bool
  preDotState :: int

text \<open>
  \<open>extnameLoop cs i s\<close>: the characters still to scan, last first; the index \<open>i\<close> of the
  first of them; the variables. A separator met after the last component ends the scan.
\<close>

fun extnameLoop :: "string \<Rightarrow> int \<Rightarrow> extState \<Rightarrow> extState" where
  "extnameLoop [] i s = s"
| "extnameLoop (code # rest) i s =
     (if code = CHR ''/'' then
        (if \<not> matchedSlash s then s\<lparr>startPart := i + 1\<rparr>
         else extnameLoop rest (i - 1) s)
      else
        (let s1 = (if endIdx s = - 1 then s\<lparr>matchedSlash := False, endIdx := i + 1\<rparr> else s);
             s2 = (if code = CHR ''.'' then
                     (if startDot s1 = - 1 then s1\<lparr>startDot := i\<rparr>
                      else if preDotState s1 \<noteq> 1 then s1\<lparr>preDotState := 1\<rparr>
                      else s1)
                   else if startDot s1 \<noteq> - 1 then s1\<lparr>preDotState := - 1\<rparr>
                   else s1)
         in extnameLoop rest (i - 1) s2))"

definition slice :: "string \<Rightarrow> int \<Rightarrow> int \<Rightarrow> string" where
  "slice str b e = take (nat (e - b)) (drop (nat b) str)"

definition extname :: "string \<Rightarrow> string" where
  "extname p =
     (let s = extnameLoop (rev p) (int (length p) - 1)
                \<lparr>startDot = - 1, startPart = 0, endIdx = - 1, matchedSlash = True,
                 preDotState = 0\<rparr>
      in if startDot s = - 1 \<or> endIdx s = - 1 \<or> preDotState s = 0 \<or>
            (preDotState s = 1 \<and> startDot s = endIdx s - 1 \<and> startDot s = startPart s + 1)
         then []
         else slice p (startDot s) (endIdx s))"

subsection \<open>The metadata table\<close>

type_synonym bytes = "char list"

record BlobMetadata =
  id' :: int
  original_name :: string
  mime_type :: string
  path :: string
  upload_timestamp :: string

text \<open>
  Table \<^verbatim>\<open>blob_metadata\<close>: its rows in insertion order, and the largest identifier the
  table ever held (\<^verbatim>\<open>AUTOINCREMENT\<close>'s counter). A failure of the store is the error
  message the callback receives.
\<close>

record Database =
  rows :: "BlobMetadata list"
  sequence :: int

definition nextId :: "Database \<Rightarrow> int" where
  "nextId d = fold max (map id' (rows d)) (sequence d) + 1"

definition insertBlob ::
  "Database \<Rightarrow> string option \<Rightarrow> string \<Rightarrow> string \<Rightarrow> string \<Rightarrow> string
     \<Rightarrow> (string + int) \<times> Database" where
  "insertBlob d err originalName mimeType filePath isoNow =
     (case err of
        Some e \<Rightarrow> (Inl e, d)
      | None \<Rightarrow>
          (let lastID = nextId d in
           (Inr lastID,
            d\<lparr>rows := rows d @
                 [\<lparr>id' = lastID, original_name = originalName, mime_type = mimeType,
                   path = filePath, upload_timestamp = isoNow\<rparr>],
              sequence := lastID\<rparr>)))"

definition getBlob :: "Database \<Rightarrow> string option \<Rightarrow> int \<Rightarrow> string + BlobMetadata option" where
  "getBlob d err i =
     (case err of Some e \<Rightarrow> Inl e | None \<Rightarrow> Inr (find (\<lambda>r. id' r = i) (rows d)))"

text \<open>
  \<^verbatim>\<open>ORDER BY upload_timestamp DESC\<close> compares the stored text byte by byte. The order
  among rows of equal timestamp is not fixed by the query; the model keeps them in the
  order of the table, as the store's sorter does.
\<close>

definition getAllBlobs :: "Database \<Rightarrow> string option \<Rightarrow> string + BlobMetadata list" where
  "getAllBlobs d err =
     (case err of
        Some e \<Rightarrow> Inl e
      | None \<Rightarrow> Inr (rev (sort_key upload_timestamp (rev (rows d)))))"

definition deleteBlob :: "Database \<Rightarrow> string option \<Rightarrow> int \<Rightarrow> (string + bool) \<times> Database" where
  "deleteBlob d err i =
     (case err of
        Some e \<Rightarrow> (Inl e, d)
      | None \<Rightarrow>
          (let kept = filter (\<lambda>r. id' r \<noteq> i) (rows d);
               changes = length (rows d) - length kept
           in (Inr (changes > 0), d\<lparr>rows := kept\<rparr>)))"

subsection \<open>The storage directory\<close>

text \<open>
  The regular files of the storage directory, by entry name: the handlers reach a file as
  \<^verbatim>\<open>path.join(storageDir, name)\<close> or with \<^verbatim>\<open>storageDir\<close> as root, and every name they
  use is a stored name, which is a single path segment (\<open>filename_no_separator\<close> and
  \<open>filename_not_dots\<close> below). A call fails with the injected error, or with
  \<^verbatim>\<open>ENOENT\<close> when the entry does not exist.
\<close>

type_synonym directory = "string \<rightharpoonup> bytes"

definition access :: "directory \<Rightarrow> string option \<Rightarrow> string \<Rightarrow> string option" where
  "access dir err name =
     (case err of Some e \<Rightarrow> Some e
      | None \<Rightarrow> if dir name = None then Some ''ENOENT'' else None)"

definition unlink :: "directory \<Rightarrow> string option \<Rightarrow> string \<Rightarrow> string option \<times> directory" where
  "unlink dir err name =
     (case err of Some e \<Rightarrow> (Some e, dir)
      | None \<Rightarrow> if dir name = None then (Some ''ENOENT'', dir) else (None, dir(name := None)))"

text \<open>
  \<^verbatim>\<open>res.sendFile(name, {root})\<close>: the body is the file's content and the
  \<^verbatim>\<open>Content-Type\<close> is looked up from the extension of the name sent, in the table of the
  sending library (a parameter here), with \<^verbatim>\<open>application/octet-stream\<close> for an
  extension the table does not know.
\<close>

definition contentType :: "(string \<rightharpoonup> string) \<Rightarrow> string \<Rightarrow> string" where
  "contentType types name =
     (case types (extname name) of Some t \<Rightarrow> t | None \<Rightarrow> ''application/octet-stream'')"

definition sendFile ::
  "directory \<Rightarrow> (string \<rightharpoonup> string) \<Rightarrow> string option \<Rightarrow> string \<Rightarrow> string + string \<times> bytes" where
  "sendFile dir types err name =
     (case err of Some e \<Rightarrow> Inl e
      | None \<Rightarrow>
          (case dir name of None \<Rightarrow> Inl ''ENOENT''
           | Some content \<Rightarrow> Inr (contentType types name, content)))"

subsection \<open>The server\<close>

record BlobStorageOptions =
  maxFileSize :: nat
  allowedMimeTypes :: "string list"

definition defaultOptions :: BlobStorageOptions where
  "defaultOptions = \<lparr>maxFileSize = 10 * 1024 * 1024, allowedMimeTypes = []\<rparr>"

text \<open>
  The server: the table, the storage directory, the options with their defaults applied,
  and what it reads off the two libraries it is built on: the table of content types of
  the sending library, and the test by which the upload library finds a file of a given
  length over a given \<^verbatim>\<open>limits.fileSize\<close>. Both are parameters.
\<close>

record BlobStorage =
  db :: Database
  storageDir :: directory
  options :: BlobStorageOptions
  mimeTypes :: "string \<rightharpoonup> string"
  overLimit :: "nat \<Rightarrow> nat \<Rightarrow> bool"

text \<open>A fresh server: an empty table and an empty storage directory.\<close>

definition newBlobStorage ::
  "BlobStorageOptions \<Rightarrow> (string \<rightharpoonup> string) \<Rightarrow> (nat \<Rightarrow> nat \<Rightarrow> bool) \<Rightarrow> BlobStorage" where
  "newBlobStorage opts types test =
     \<lparr>db = \<lparr>rows = [], sequence = 0\<rparr>, storageDir = Map.empty, options = opts,
      mimeTypes = types, overLimit = test\<rparr>"

text \<open>The file part of a multipart request, as the upload middleware reads it.\<close>

record UploadedFile =
  originalname :: string
  mimetype :: string
  content :: bytes

text \<open>
  What one request reads from its environment: the clock (\<^verbatim>\<open>Date.now()\<close> in the
  filename callback, \<^verbatim>\<open>new Date().toISOString()\<close> in \<^verbatim>\<open>insertBlob\<close>) and the failure,
  if any, of each call on the file system and on the store. A failed write comes with
  what it leaves under the name it was writing.
\<close>

record Env =
  dateNow :: nat
  isoNow :: string
  writeError :: "(string \<times> bytes option) option"
  insertError :: "string option"
  getError :: "string option"
  allError :: "string option"
  deleteError :: "string option"
  accessError :: "string option"
  sendError :: "string option"
  unlinkError :: "string option"

datatype event =
    DbInsert
  | DbGet int
  | DbAll
  | DbDelete int
  | FsWrite string
  | FsAccess string
  | FsSend string
  | FsUnlink string

datatype body =
    ErrorResponse string
  | UploadResponse int string
  | MessageResponse string
  | RowsResponse "BlobMetadata list"
  | FileResponse string bytes

datatype response = Response nat body

subsection \<open>Upload middleware\<close>

text \<open>\<^verbatim>\<open>fileFilter\<close>: the error it passes to its callback, if any.\<close>

definition fileFilter :: "BlobStorageOptions \<Rightarrow> UploadedFile \<Rightarrow> string option" where
  "fileFilter opts file =
     (if length (allowedMimeTypes opts) > 0 \<and> mimetype file \<notin> set (allowedMimeTypes opts)
      then Some (''File type '' @ mimetype file @ '' not allowed'')
      else None)"

text \<open>The \<^verbatim>\<open>filename\<close> callback of the disk storage.\<close>

definition filename :: "nat \<Rightarrow> UploadedFile \<Rightarrow> string" where
  "filename now file = toDecimal now @ extname (originalname file)"

record MulterError =
  code :: "string option"
  message :: string

text \<open>
  \<^verbatim>\<open>upload.single('blob')\<close>, the middleware of the upload library configured with the
  disk storage, \<^verbatim>\<open>limits.fileSize\<close> and \<^verbatim>\<open>fileFilter\<close>. The filter runs before anything
  is stored. The file is then streamed to the name the callback gives, replacing a file
  already there; a file the library finds over \<^verbatim>\<open>limits.fileSize\<close> is cut at the limit,
  reported as \<^verbatim>\<open>LIMIT_FILE_SIZE\<close> and what was written is removed again. The result is
  the error, or \<^verbatim>\<open>req.file\<close> (absent when the request carries no file) with its stored
  name.
\<close>

definition uploadSingle ::
  "BlobStorage \<Rightarrow> Env \<Rightarrow> UploadedFile option
     \<Rightarrow> (MulterError + (UploadedFile \<times> string) option) \<times> event list \<times> directory" where
  "uploadSingle srv env req =
     (case req of
        None \<Rightarrow> (Inr None, [], storageDir srv)
      | Some file \<Rightarrow>
          (case fileFilter (options srv) file of
             Some msg \<Rightarrow> (Inl \<lparr>code = None, message = msg\<rparr>, [], storageDir srv)
           | None \<Rightarrow>
               (let name = filename (dateNow env) file in
                if overLimit srv (length (content file)) (maxFileSize (options srv))
                then (Inl \<lparr>code = Some ''LIMIT_FILE_SIZE'', message = ''File too large''\<rparr>,
                      [FsWrite name, FsUnlink name], (storageDir srv)(name := None))
                else
                  (case writeError env of
                     Some (msg, leftover) \<Rightarrow>
                       (Inl \<lparr>code = None, message = msg\<rparr>, [FsWrite name],
                        (storageDir srv)(name := leftover))
                   | None \<Rightarrow>
                       (Inr (Some (file, name)), [FsWrite name],
                        (storageDir srv)(name \<mapsto> content file))))))"

subsection \<open>Routes\<close>

text \<open>\<^verbatim>\<open>POST /upload\<close>\<close>

definition postUpload ::
  "BlobStorage \<Rightarrow> Env \<Rightarrow> UploadedFile option \<Rightarrow> response \<times> event list \<times> BlobStorage" where
  "postUpload srv env req =
     (case uploadSingle srv env req of
        (Inl err, evs, dir) \<Rightarrow>
          (if code err = Some ''LIMIT_FILE_SIZE''
           then (Response 400 (ErrorResponse ''File too large''), evs, srv\<lparr>storageDir := dir\<rparr>)
           else (Response 400 (ErrorResponse (message err)), evs, srv\<lparr>storageDir := dir\<rparr>))
      | (Inr None, evs, dir) \<Rightarrow>
          (Response 400 (ErrorResponse ''No file uploaded''), evs, srv\<lparr>storageDir := dir\<rparr>)
      | (Inr (Some (file, name)), evs, dir) \<Rightarrow>
          (case insertBlob (db srv) (insertError env) (originalname file) (mimetype file) name
                  (isoNow env) of
             (Inl err, d) \<Rightarrow>
               (Response 500 (ErrorResponse ''Server error''), evs @ [DbInsert],
                srv\<lparr>storageDir := dir, db := d\<rparr>)
           | (Inr i, d) \<Rightarrow>
               (Response 200 (UploadResponse i ''File uploaded successfully''), evs @ [DbInsert],
                srv\<lparr>storageDir := dir, db := d\<rparr>)))"

text \<open>\<^verbatim>\<open>GET /files\<close>\<close>

definition getFiles :: "BlobStorage \<Rightarrow> Env \<Rightarrow> response \<times> event list \<times> BlobStorage" where
  "getFiles srv env =
     (case getAllBlobs (db srv) (allError env) of
        Inl err \<Rightarrow> (Response 500 (ErrorResponse ''Server error''), [DbAll], srv)
      | Inr rs \<Rightarrow> (Response 200 (RowsResponse rs), [DbAll], srv))"

text \<open>The identifier check both \<^verbatim>\<open>/blob/:id\<close> routes start with.\<close>

definition invalidId :: "number \<Rightarrow> bool" where
  "invalidId blobId = (isNaN blobId \<or> lessEqZero blobId \<or> \<not> isInteger blobId)"

text \<open>\<^verbatim>\<open>GET /blob/:id\<close>\<close>

definition getBlobById ::
  "BlobStorage \<Rightarrow> Env \<Rightarrow> string \<Rightarrow> response \<times> event list \<times> BlobStorage" where
  "getBlobById srv env idParam =
     (let blobId = parseInt idParam in
      if invalidId blobId
      then (Response 400 (ErrorResponse ''Invalid blob ID''), [], srv)
      else
        (case getBlob (db srv) (getError env) (intOf blobId) of
           Inl err \<Rightarrow>
             (Response 500 (ErrorResponse ''Server error''), [DbGet (intOf blobId)], srv)
         | Inr None \<Rightarrow>
             (Response 404 (ErrorResponse ''Blob not found''), [DbGet (intOf blobId)], srv)
         | Inr (Some row) \<Rightarrow>
             (case access (storageDir srv) (accessError env) (path row) of
                Some accessErr \<Rightarrow>
                  (Response 404 (ErrorResponse ''File not found or inaccessible''),
                   [DbGet (intOf blobId), FsAccess (path row)], srv)
              | None \<Rightarrow>
                  (case sendFile (storageDir srv) (mimeTypes srv) (sendError env) (path row) of
                     Inl err \<Rightarrow>
                       (Response 500 (ErrorResponse ''Error serving the file''),
                        [DbGet (intOf blobId), FsAccess (path row), FsSend (path row)], srv)
                   | Inr (type, data) \<Rightarrow>
                       (Response 200 (FileResponse type data),
                        [DbGet (intOf blobId), FsAccess (path row), FsSend (path row)], srv)))))"

text \<open>\<^verbatim>\<open>DELETE /blob/:id\<close>\<close>

definition deleteBlobById ::
  "BlobStorage \<Rightarrow> Env \<Rightarrow> string \<Rightarrow> response \<times> event list \<times> BlobStorage" where
  "deleteBlobById srv env idParam =
     (let blobId = parseInt idParam in
      if invalidId blobId
      then (Response 400 (ErrorResponse ''Invalid blob ID''), [], srv)
      else
        (case getBlob (db srv) (getError env) (intOf blobId) of
           Inl err \<Rightarrow>
             (Response 500 (ErrorResponse ''Server error''), [DbGet (intOf blobId)], srv)
         | Inr None \<Rightarrow>
             (Response 404 (ErrorResponse ''Blob not found''), [DbGet (intOf blobId)], srv)
         | Inr (Some row) \<Rightarrow>
             (case unlink (storageDir srv) (unlinkError env) (path row) of
                (Some err, dir) \<Rightarrow>
                  (Response 500 (ErrorResponse ''Failed to delete physical file''),
                   [DbGet (intOf blobId), FsUnlink (path row)], srv\<lparr>storageDir := dir\<rparr>)
              | (None, dir) \<Rightarrow>
                  (case deleteBlob (db srv) (deleteError env) (intOf blobId) of
                     (Inl err, d) \<Rightarrow>
                       (Response 500 (ErrorResponse ''Server error''),
                        [DbGet (intOf blobId), FsUnlink (path row), DbDelete (intOf blobId)],
                        srv\<lparr>storageDir := dir, db := d\<rparr>)
                   | (Inr deleted, d) \<Rightarrow>
                       (if \<not> deleted
                        then (Response 404 (ErrorResponse ''Blob not found''),
                              [DbGet (intOf blobId), FsUnlink (path row), DbDelete (intOf blobId)],
                              srv\<lparr>storageDir := dir, db := d\<rparr>)
                        else (Response 200 (MessageResponse ''File deleted successfully''),
                              [DbGet (intOf blobId), FsUnlink (path row), DbDelete (intOf blobId)],
                              srv\<lparr>storageDir := dir, db := d\<rparr>))))))"

subsection \<open>Running several uploads\<close>

fun uploads ::
  "BlobStorage \<Rightarrow> (Env \<times> UploadedFile option) list \<Rightarrow> response list \<times> BlobStorage" where
  "uploads srv [] = ([], srv)"
| "uploads srv ((env, req) # reqs) =
     (case postUpload srv env req of
        (r, evs, srv') \<Rightarrow> (case uploads srv' reqs of (rs, srv'') \<Rightarrow> (r # rs, srv'')))"

fun succeeded :: "response \<Rightarrow> bool" where
  "succeeded (Response st b) = (st = 200)"

text \<open>The calls that only read a substrate.\<close>

fun readOnly :: "event \<Rightarrow> bool" where
  "readOnly (DbGet i) = True"
| "readOnly DbAll = True"
| "readOnly (FsAccess name) = True"
| "readOnly (FsSend name) = True"
| "readOnly ev = False"

subsection \<open>Concrete servers, files and environments\<close>

text \<open>
  The one entry of the sending library's table that the repository's test of
  \<^verbatim>\<open>GET /blob/:id\<close> relies on (the test compares the header in lower case).
\<close>

definition txtTypes :: "string \<rightharpoonup> string" where
  "txtTypes = [''.txt'' \<mapsto> ''text/plain; charset=utf-8'']"

text \<open>
  Modelled from the spec: the limit test of the upload library, whose code is not part of
  the repository. The specification reads \<^verbatim>\<open>limits.fileSize\<close> as: a file is over the
  limit when it is longer than the limit.
\<close>

definition longerThan :: "nat \<Rightarrow> nat \<Rightarrow> bool" where
  "longerThan sizeBytes sizeLimit = (sizeLimit < sizeBytes)"

text \<open>An environment in which nothing fails.\<close>

definition quiet :: "nat \<Rightarrow> string \<Rightarrow> Env" where
  "quiet now stamp =
     \<lparr>dateNow = now, isoNow = stamp, writeError = None, insertError = None, getError = None,
      allError = None, deleteError = None, accessError = None, sendError = None,
      unlinkError = None\<rparr>"

definition tick :: Env where
  "tick = quiet 1700000000000 ''2023-11-14T22:13:20.000Z''"

definition fresh :: BlobStorage where
  "fresh = newBlobStorage defaultOptions txtTypes longerThan"

text \<open>Two uploaded files: a name that climbs out of a directory, and a name that is a clock reading.\<close>

definition traversal :: UploadedFile where
  "traversal = \<lparr>originalname = ''../../etc/passwd'', mimetype = ''text/plain'', content = ''x''\<rparr>"

definition stamped :: UploadedFile where
  "stamped = \<lparr>originalname = ''1700000000000.txt'', mimetype = ''text/plain'', content = ''x''\<rparr>"

text \<open>The files, rows and servers of the examples.\<close>

definition hello :: UploadedFile where
  "hello = \<lparr>originalname = ''a.txt'', mimetype = ''text/plain'', content = ''hello''\<rparr>"

definition longText :: UploadedFile where
  "longText =
     \<lparr>originalname = ''a.txt'', mimetype = ''text/plain'', content = ''01234567890123456789''\<rparr>"

definition pngOnly :: BlobStorage where
  "pngOnly =
     newBlobStorage \<lparr>maxFileSize = 10, allowedMimeTypes = [''image/png'']\<rparr> txtTypes longerThan"

definition helloRow :: BlobMetadata where
  "helloRow =
     \<lparr>id' = 1, original_name = ''a.txt'', mime_type = ''text/plain'',
      path = ''1700000000000.txt'', upload_timestamp = ''2023-11-14T22:13:20.000Z''\<rparr>"

definition oneBlob :: BlobStorage where
  "oneBlob =
     \<lparr>db = \<lparr>rows = [helloRow], sequence = 1\<rparr>,
      storageDir = [''1700000000000.txt'' \<mapsto> ''hello''],
      options = defaultOptions, mimeTypes = txtTypes, overLimit = longerThan\<rparr>"

definition orphaned :: BlobStorage where
  "orphaned = oneBlob\<lparr>storageDir := Map.empty\<rparr>"

definition tock :: Env where
  "tock = quiet 1700000000001 ''2023-11-14T22:13:20.001Z''"

definition world :: UploadedFile where
  "world = \<lparr>originalname = ''b.txt'', mimetype = ''text/plain'', content = ''world''\<rparr>"

definition worldRow :: BlobMetadata where
  "worldRow =
     \<lparr>id' = 2, original_name = ''b.txt'', mime_type = ''text/plain'',
      path = ''1700000000001.txt'', upload_timestamp = ''2023-11-14T22:13:20.001Z''\<rparr>"

definition twoBlobs :: BlobStorage where
  "twoBlobs =
     \<lparr>db = \<lparr>rows = [helloRow, worldRow], sequence = 2\<rparr>,
      storageDir = [''1700000000000.txt'' \<mapsto> ''hello'', ''1700000000001.txt'' \<mapsto> ''world''],
      options = defaultOptions, mimeTypes = txtTypes, overLimit = longerThan\<rparr>"

definition threeRequests :: "(Env \<times> UploadedFile option) list" where
  "threeRequests = [(tick, Some hello), (tick, None), (tock, Some world)]"

definition mislabelled :: UploadedFile where
  "mislabelled = \<lparr>originalname = ''a.txt'', mimetype = ''application/json'', content = ''hello''\<rparr>"

definition other :: UploadedFile where
  "other = \<lparr>originalname = ''a.txt'', mimetype = ''text/plain'', content = ''other''\<rparr>"

definition jsonRow :: BlobMetadata where
  "jsonRow = helloRow\<lparr>mime_type := ''application/json''\<rparr>"

definition oneJson :: BlobStorage where
  "oneJson = oneBlob\<lparr>db := \<lparr>rows = [jsonRow], sequence = 1\<rparr>\<rparr>"

definition otherRow :: BlobMetadata where
  "otherRow = helloRow\<lparr>id' := 2\<rparr>"

definition collided :: BlobStorage where
  "collided =
     \<lparr>db = \<lparr>rows = [helloRow, otherRow], sequence = 2\<rparr>,
      storageDir = [''1700000000000.txt'' \<mapsto> ''other''],
      options = defaultOptions, mimeTypes = txtTypes, overLimit = longerThan\<rparr>"

subsection \<open>The scanner's invariant\<close>

text \<open>
  Before index \<open>i\<close> is read: the component found so far ends at \<open>endIdx\<close>, holds no
  separator from \<open>i + 1\<close> on, and the dot found, if any, lies inside it.
\<close>

definition extInv :: "string \<Rightarrow> int \<Rightarrow> extState \<Rightarrow> bool" where
  "extInv p i s =
     ((endIdx s = - 1 \<or>
        (i < endIdx s \<and> endIdx s \<le> int (length p) \<and>
         (\<forall>j. i < j \<and> j < endIdx s \<longrightarrow> p ! nat j \<noteq> CHR ''/''))) \<and>
      (matchedSlash s \<longrightarrow> endIdx s = - 1) \<and>
      (startDot s = - 1 \<or> (endIdx s \<noteq> - 1 \<and> i < startDot s \<and> startDot s < endIdx s)))"

definition extGood :: "string \<Rightarrow> extState \<Rightarrow> bool" where
  "extGood p s =
     (startDot s \<noteq> - 1 \<and> endIdx s \<noteq> - 1 \<longrightarrow>
        0 \<le> startDot s \<and> startDot s < endIdx s \<and> endIdx s \<le> int (length p) \<and>
        (\<forall>j. startDot s \<le> j \<and> j < endIdx s \<longrightarrow> p ! nat j \<noteq> CHR ''/''))"

section \<open>Text and numbers\<close>

subsection \<open>Decimal text is read back by \<^verbatim>\<open>parseInt\<close>\<close>

lemma digitValue_digitChar: "d < 10 \<Longrightarrow> digitValue (digitChar d) = Some d"
proof -
  assume "d < 10"
  then have "d = 0 \<or> d = 1 \<or> d = 2 \<or> d = 3 \<or> d = 4 \<or> d = 5 \<or> d = 6 \<or> d = 7 \<or> d = 8 \<or> d = 9"
    by arith
  then show ?thesis
    by (elim disjE) (simp_all add: digitChar_def digitValue_def)
qed

lemma isRadixDigit_digitChar: "d < 10 \<Longrightarrow> isRadixDigit 10 (digitChar d)"
  by (simp add: isRadixDigit_def digitValue_digitChar)

lemma radixValue_snoc: "radixValue R (Z @ [c]) = radixValue R Z * R + the (digitValue c)"
  by (simp add: radixValue_def)

lemma toDecimal_digits: "\<forall>c \<in> set (toDecimal n). isRadixDigit 10 c"
proof (induction n rule: toDecimal.induct)
  case (1 n)
  show ?case
  proof (cases "n < 10")
    case True
    then show ?thesis
      by (subst toDecimal.simps) (simp add: isRadixDigit_digitChar)
  next
    case False
    with 1 show ?thesis
      by (subst toDecimal.simps) (simp add: isRadixDigit_digitChar)
  qed
qed

lemma toDecimal_nonempty: "toDecimal n \<noteq> []"
  by (subst toDecimal.simps) simp

lemma radixValue_toDecimal: "radixValue 10 (toDecimal n) = n"
proof (induction n rule: toDecimal.induct)
  case (1 n)
  show ?case
  proof (cases "n < 10")
    case True
    then show ?thesis
      by (subst toDecimal.simps) (simp add: radixValue_def digitValue_digitChar)
  next
    case False
    with 1 show ?thesis
      by (subst toDecimal.simps) (simp add: radixValue_snoc digitValue_digitChar)
  qed
qed

lemma digit_not_special:
  "isRadixDigit 10 c \<Longrightarrow>
     \<not> isWhiteSpace c \<and> c \<noteq> CHR ''-'' \<and> c \<noteq> CHR ''+'' \<and> c \<noteq> CHR ''x'' \<and> c \<noteq> CHR ''X'' \<and>
     c \<noteq> CHR ''/'' \<and> c \<noteq> CHR ''.''"
  by (auto simp: isRadixDigit_def digitValue_def isWhiteSpace_def)

lemma parseInt_digits:
  assumes "Z \<noteq> []" and "\<forall>c \<in> set Z. isRadixDigit 10 c"
  shows "parseInt Z = toNumber (int (radixValue 10 Z))"
proof -
  obtain c cs where Z: "Z = c # cs"
    using assms(1) by (cases Z) auto
  have c: "isRadixDigit 10 c" using assms(2) Z by simp
  have ws: "dropWhile isWhiteSpace Z = Z"
    using digit_not_special [OF c] Z by simp
  have sg: "stripSign Z = (1, Z)"
    using digit_not_special [OF c] Z by (simp add: stripSign_def)
  have "take 2 Z \<noteq> ''0x'' \<and> take 2 Z \<noteq> ''0X''"
  proof (cases cs)
    case Nil
    then show ?thesis using Z by simp
  next
    case (Cons d ds)
    then have "isRadixDigit 10 d" using assms(2) Z by simp
    then show ?thesis using digit_not_special [of d] Z Cons by auto
  qed
  then have px: "stripPrefix Z = (10, Z)"
    by (simp add: stripPrefix_def)
  have tw: "takeWhile (isRadixDigit 10) Z = Z"
    using assms(2) by (simp add: takeWhile_eq_all_conv)
  show ?thesis
    using assms(1) by (simp add: parseInt_def ws sg px tw)
qed

lemma parseInt_toDecimal: "parseInt (toDecimal n) = toNumber (int n)"
  by (simp add: parseInt_digits toDecimal_nonempty toDecimal_digits radixValue_toDecimal)

subsection \<open>An extension holds no separator\<close>

lemma extInv_good: "- 1 \<le> i \<Longrightarrow> extInv p i s \<Longrightarrow> extGood p s"
  by (auto simp: extInv_def extGood_def)

lemma rev_take_Cons:
  assumes "rev (take (nat (i + 1)) p) = c # rest" and "i < int (length p)" and "- 1 \<le> i"
  shows "0 \<le> i \<and> c = p ! nat i \<and> rest = rev (take (nat ((i - 1) + 1)) p)"
proof -
  have "0 \<le> i"
    using assms by (cases "i = - 1") auto
  then obtain n where n: "i = int n"
    using nonneg_int_cases by blast
  then have len: "n < length p" using assms(2) by simp
  have "nat (i + 1) = Suc n" using n by simp
  then have "rev (take (nat (i + 1)) p) = p ! n # rev (take n p)"
    using len by (simp add: take_Suc_conv_app_nth)
  with assms(1) have "c = p ! n \<and> rest = rev (take n p)" by simp
  with n show ?thesis by simp
qed

lemma extend_range:
  assumes "\<forall>j. i < j \<and> j < e \<longrightarrow> p ! nat j \<noteq> CHR ''/''" and "p ! nat i \<noteq> CHR ''/''"
  shows "\<forall>j. i - 1 < j \<and> j < e \<longrightarrow> p ! nat j \<noteq> CHR ''/''"
proof (intro allI impI)
  fix j :: int
  assume j: "i - 1 < j \<and> j < e"
  then have "j = i \<or> i < j" by arith
  then show "p ! nat j \<noteq> CHR ''/''"
    using assms j by auto
qed

lemma extInv_step:
  assumes "extInv p i s" and "0 \<le> i" and "i < int (length p)" and "p ! nat i \<noteq> CHR ''/''"
  shows "extInv p (i - 1)
           (if endIdx s = - 1 then s\<lparr>matchedSlash := False, endIdx := i + 1\<rparr> else s)"
proof (cases "endIdx s = - 1")
  case True
  have "\<forall>j. i - 1 < j \<and> j < i + 1 \<longrightarrow> p ! nat j \<noteq> CHR ''/''"
    by (rule extend_range) (use assms(4) in auto)
  then show ?thesis
    using True assms(1,2,3) by (simp add: extInv_def)
next
  case False
  then have "\<forall>j. i < j \<and> j < endIdx s \<longrightarrow> p ! nat j \<noteq> CHR ''/''"
    using assms(1) by (simp add: extInv_def)
  then have "\<forall>j. i - 1 < j \<and> j < endIdx s \<longrightarrow> p ! nat j \<noteq> CHR ''/''"
    using extend_range assms(4) by blast
  then show ?thesis
    using False assms(1) by (auto simp: extInv_def)
qed

lemma extInv_dot:
  assumes "extInv p (i - 1) s1" and "endIdx s1 \<noteq> - 1" and "i < endIdx s1"
  shows "extInv p (i - 1)
           (if c = CHR ''.'' then
              (if startDot s1 = - 1 then s1\<lparr>startDot := i\<rparr>
               else if preDotState s1 \<noteq> 1 then s1\<lparr>preDotState := 1\<rparr>
               else s1)
            else if startDot s1 \<noteq> - 1 then s1\<lparr>preDotState := - 1\<rparr>
            else s1)"
  using assms by (cases "startDot s1 = - 1") (simp_all add: extInv_def)

lemma extInv_step_end:
  assumes "extInv p i s" and "0 \<le> i"
  shows "endIdx (if endIdx s = - 1 then s\<lparr>matchedSlash := False, endIdx := i + 1\<rparr> else s) \<noteq> - 1
         \<and> i < endIdx (if endIdx s = - 1 then s\<lparr>matchedSlash := False, endIdx := i + 1\<rparr> else s)"
  using assms by (cases "endIdx s = - 1") (simp_all add: extInv_def)

lemma extnameLoop_good:
  "cs = rev (take (nat (i + 1)) p) \<Longrightarrow> - 1 \<le> i \<Longrightarrow> i < int (length p) \<Longrightarrow> extInv p i s
     \<Longrightarrow> extGood p (extnameLoop cs i s)"
proof (induction cs arbitrary: i s)
  case Nil
  then show ?case by (simp add: extInv_good)
next
  case (Cons c rest)
  from Cons.prems have step: "0 \<le> i" "c = p ! nat i" "rest = rev (take (nat ((i - 1) + 1)) p)"
    using rev_take_Cons [of i p c rest] by auto
  show ?case
  proof (cases "c = CHR ''/''")
    case True
    show ?thesis
    proof (cases "matchedSlash s")
      case True
      then have "extInv p (i - 1) s"
        using Cons.prems(4) by (auto simp: extInv_def)
      then have "extGood p (extnameLoop rest (i - 1) s)"
        using Cons.IH [of "i - 1" s] step Cons.prems by simp
      then show ?thesis using \<open>c = CHR ''/''\<close> True by simp
    next
      case False
      have "extGood p (s\<lparr>startPart := i + 1\<rparr>)"
        using Cons.prems(4) step(1) by (auto simp: extInv_def extGood_def)
      then show ?thesis using \<open>c = CHR ''/''\<close> False by simp
    qed
  next
    case False
    let ?s1 = "if endIdx s = - 1 then s\<lparr>matchedSlash := False, endIdx := i + 1\<rparr> else s"
    let ?s2 = "if c = CHR ''.'' then
                 (if startDot ?s1 = - 1 then ?s1\<lparr>startDot := i\<rparr>
                  else if preDotState ?s1 \<noteq> 1 then ?s1\<lparr>preDotState := 1\<rparr>
                  else ?s1)
               else if startDot ?s1 \<noteq> - 1 then ?s1\<lparr>preDotState := - 1\<rparr>
               else ?s1"
    have i1: "extInv p (i - 1) ?s1"
      using extInv_step [OF Cons.prems(4) step(1) Cons.prems(3)] False step(2) by simp
    have e1: "endIdx ?s1 \<noteq> - 1" "i < endIdx ?s1"
      using extInv_step_end [OF Cons.prems(4) step(1)] by blast+
    have i2: "extInv p (i - 1) ?s2"
      by (rule extInv_dot [OF i1 e1])
    have "extGood p (extnameLoop rest (i - 1) ?s2)"
      using Cons.IH [of "i - 1" ?s2] step Cons.prems i2 by simp
    moreover have "extnameLoop (c # rest) i s = extnameLoop rest (i - 1) ?s2"
      using False by (simp add: Let_def)
    ultimately show ?thesis by simp
  qed
qed

lemma slice_set:
  assumes "0 \<le> b" and "e \<le> int (length p)"
  shows "set (slice p b e) \<subseteq> {p ! nat j |j. b \<le> j \<and> j < e}"
proof
  fix x assume "x \<in> set (slice p b e)"
  then obtain k where k: "k < length (slice p b e)" "x = slice p b e ! k"
    by (auto simp: in_set_conv_nth)
  then have kl: "k < nat (e - b)" "nat b + k < length p"
    using assms by (auto simp: slice_def)
  then have "x = p ! (nat b + k)"
    using k by (simp add: slice_def)
  moreover have "nat b + k = nat (b + int k)" using assms by simp
  moreover have "b \<le> b + int k \<and> b + int k < e" using kl by auto
  ultimately show "x \<in> {p ! nat j |j. b \<le> j \<and> j < e}" by auto
qed

lemma extname_unfold:
  fixes p :: string
  defines "s \<equiv> extnameLoop (rev p) (int (length p) - 1)
       \<lparr>startDot = - 1, startPart = 0, endIdx = - 1, matchedSlash = True, preDotState = 0\<rparr>"
  shows "extname p =
      (if startDot s = - 1 \<or> endIdx s = - 1 \<or> preDotState s = 0 \<or>
          (preDotState s = 1 \<and> startDot s = endIdx s - 1 \<and> startDot s = startPart s + 1)
       then [] else slice p (startDot s) (endIdx s))"
  unfolding extname_def s_def Let_def by (rule refl)

lemma extname_good:
  "extGood p (extnameLoop (rev p) (int (length p) - 1)
       \<lparr>startDot = - 1, startPart = 0, endIdx = - 1, matchedSlash = True, preDotState = 0\<rparr>)"
proof -
  have inv: "extInv p (int (length p) - 1)
     \<lparr>startDot = - 1, startPart = 0, endIdx = - 1, matchedSlash = True, preDotState = 0\<rparr>"
    by (simp add: extInv_def)
  have whole: "rev p = rev (take (nat ((int (length p) - 1) + 1)) p)"
    by simp
  show ?thesis
    by (rule extnameLoop_good [OF whole _ _ inv]) simp_all
qed

lemma slice_no_separator:
  assumes "0 \<le> b" and "e \<le> int (length p)"
    and "\<forall>j. b \<le> j \<and> j < e \<longrightarrow> p ! nat j \<noteq> CHR ''/''"
  shows "CHR ''/'' \<notin> set (slice p b e)"
proof
  assume "CHR ''/'' \<in> set (slice p b e)"
  then have "CHR ''/'' \<in> {p ! nat j |j. b \<le> j \<and> j < e}"
    using slice_set [OF assms(1,2)] by (rule rev_subsetD)
  then obtain j where "b \<le> j \<and> j < e" "p ! nat j = CHR ''/''"
    by auto
  then show False using assms(3) by simp
qed

lemma extname_no_separator: "CHR ''/'' \<notin> set (extname p)"
proof -
  define s where "s = extnameLoop (rev p) (int (length p) - 1)
       \<lparr>startDot = - 1, startPart = 0, endIdx = - 1, matchedSlash = True, preDotState = 0\<rparr>"
  have ext: "extname p = [] \<or>
      (startDot s \<noteq> - 1 \<and> endIdx s \<noteq> - 1 \<and> extname p = slice p (startDot s) (endIdx s))"
    unfolding s_def by (subst (1 2) extname_unfold) simp
  have good: "extGood p s"
    unfolding s_def by (rule extname_good)
  from ext show ?thesis
  proof
    assume "extname p = []"
    then show ?thesis by simp
  next
    assume a: "startDot s \<noteq> - 1 \<and> endIdx s \<noteq> - 1 \<and> extname p = slice p (startDot s) (endIdx s)"
    with good have "0 \<le> startDot s" "endIdx s \<le> int (length p)"
      "\<forall>j. startDot s \<le> j \<and> j < endIdx s \<longrightarrow> p ! nat j \<noteq> CHR ''/''"
      by (simp_all add: extGood_def)
    then have "CHR ''/'' \<notin> set (slice p (startDot s) (endIdx s))"
      by (rule slice_no_separator)
    with a show ?thesis by simp
  qed
qed

subsection \<open>Values used in the examples\<close>

lemma toDecimal_tick: "toDecimal 1700000000000 = ''1700000000000''"
  by (simp add: toDecimal.simps digitChar_def)

lemma toNumber_small: "- (2 ^ 53) \<le> m \<Longrightarrow> m \<le> 2 ^ 53 \<Longrightarrow> toNumber m = Num m"
  by (simp add: toNumber_def)

lemma parseInt_1: "parseInt ''1'' = Num 1"
proof -
  have "parseInt ''1'' = toNumber 1"
    by (simp add: parseInt_def stripSign_def stripPrefix_def isWhiteSpace_def isRadixDigit_def
        digitValue_def radixValue_def)
  then show ?thesis by (simp add: toNumber_small)
qed

lemma extname_stamped: "extname ''1700000000000.txt'' = ''.txt''"
  by code_simp

lemma extname_traversal: "extname ''../../etc/passwd'' = []"
  by code_simp

lemma filename_traversal: "filename (dateNow tick) traversal = ''1700000000000''"
  by (simp add: filename_def traversal_def tick_def quiet_def toDecimal_tick extname_traversal)

section \<open>The stored name\<close>

lemma toDecimal_hd: "\<exists>c cs. toDecimal n = c # cs \<and> isRadixDigit 10 c"
proof -
  obtain c cs where "toDecimal n = c # cs"
    using toDecimal_nonempty [of n] by (cases "toDecimal n") auto
  moreover from this have "isRadixDigit 10 c"
    using toDecimal_digits [of n] by simp
  ultimately show ?thesis by blast
qed

lemma toDecimal_no_separator: "CHR ''/'' \<notin> set (toDecimal n)"
  using toDecimal_digits [of n] digit_not_special [of "CHR ''/''"] by blast

lemma filename_no_separator: "CHR ''/'' \<notin> set (filename now file)"
  by (simp add: filename_def toDecimal_no_separator extname_no_separator)

lemma filename_hd: "\<exists>c cs. filename now file = c # cs \<and> isRadixDigit 10 c"
  using toDecimal_hd [of now] by (auto simp: filename_def)

lemma filename_not_dots:
  "filename now file \<noteq> [] \<and> filename now file \<noteq> ''.'' \<and> filename now file \<noteq> ''..''"
proof -
  obtain c cs where f: "filename now file = c # cs" and c: "isRadixDigit 10 c"
    using filename_hd by blast
  from c have "c \<noteq> CHR ''.''"
    using digit_not_special by blast
  with f show ?thesis by simp
qed

lemma postUpload_other_entries:
  "name \<noteq> filename (dateNow env) file \<Longrightarrow>
     storageDir (snd (snd (postUpload srv env (Some file)))) name = storageDir srv name"
  by (simp add: postUpload_def uploadSingle_def insertBlob_def Let_def
      split: option.splits prod.splits sum.splits)

text \<open>
  Claim C9, as the code has it. The stored name is the decimal clock reading followed by
  the extension of the original name. Whatever the original name is, the stored name
  holds no path separator and is neither empty nor \<open>.\<close> nor \<open>..\<close>: it is one path segment,
  so the file is an entry of the storage directory itself, and no other entry of the
  directory is touched by the upload. An original name that holds a separator (such as
  \<open>../../etc/passwd\<close>) is never the stored name.
\<close>

theorem C9_stored_name_is_one_segment:
  "CHR ''/'' \<notin> set (filename (dateNow env) file) \<and>
   filename (dateNow env) file \<noteq> [] \<and>
   filename (dateNow env) file \<noteq> ''.'' \<and>
   filename (dateNow env) file \<noteq> ''..'' \<and>
   (CHR ''/'' \<in> set (originalname file) \<longrightarrow> filename (dateNow env) file \<noteq> originalname file) \<and>
   (\<forall>name. name \<noteq> filename (dateNow env) file \<longrightarrow>
      storageDir (snd (snd (postUpload srv env (Some file)))) name = storageDir srv name)"
  using filename_no_separator [of "dateNow env" "file"] filename_not_dots [of "dateNow env" "file"]
    postUpload_other_entries [of _ env "file" srv]
  by metis

text \<open>
  Claim C9 as the specification states it (the stored name is never the original name
  verbatim) fails when the client names its file after the clock reading of the upload:
  the name derived for \<open>1700000000000.txt\<close> at time \<open>1700000000000\<close> is that very name.
\<close>

theorem C9_counterexample: "filename 1700000000000 stamped = originalname stamped"
  by (simp add: filename_def stamped_def toDecimal_tick extname_stamped)

theorem C9_witness:
  "CHR ''/'' \<in> set (originalname traversal) \<and>
   filename (dateNow tick) traversal = ''1700000000000'' \<and>
   filename (dateNow tick) traversal \<noteq> originalname traversal \<and>
   storageDir (snd (snd (postUpload fresh tick (Some traversal)))) ''../../etc/passwd'' = None"
proof -
  have sep: "CHR ''/'' \<in> set (originalname traversal)"
    by (simp add: traversal_def)
  have other: "''../../etc/passwd'' \<noteq> filename (dateNow tick) traversal"
    by (simp add: filename_traversal)
  have "storageDir fresh ''../../etc/passwd'' = None"
    by (simp add: fresh_def newBlobStorage_def)
  with sep other show ?thesis
    using C9_stored_name_is_one_segment [of tick traversal fresh]
    by (simp add: filename_traversal)
qed

section \<open>Reading routes\<close>

text \<open>
  Claim C10. \<^verbatim>\<open>GET /blob/:id\<close> and \<^verbatim>\<open>GET /files\<close> leave the server as it was, table and
  storage directory alike, for every identifier text, every state and every combination
  of failures, and every call they make on a substrate is a read.
\<close>

theorem C10_reads_change_nothing:
  "snd (snd (getBlobById srv env idParam)) = srv \<and>
   list_all readOnly (fst (snd (getBlobById srv env idParam))) \<and>
   snd (snd (getFiles srv env)) = srv \<and>
   list_all readOnly (fst (snd (getFiles srv env)))"
  by (simp add: getBlobById_def getFiles_def Let_def
      split: option.splits prod.splits sum.splits)

theorem C10_witness:
  "snd (snd (getBlobById fresh tick ''1'')) = fresh \<and>
   fst (getBlobById fresh tick ''1'') = Response 404 (ErrorResponse ''Blob not found'') \<and>
   snd (snd (getFiles fresh tick)) = fresh"
  using C10_reads_change_nothing [of fresh tick "''1''"]
  by (simp add: getBlobById_def parseInt_1 invalidId_def isNaN_def getBlob_def fresh_def
      newBlobStorage_def tick_def quiet_def)

section \<open>Uploading, deleting and downloading\<close>

lemma extname_a_txt: "extname ''a.txt'' = ''.txt''"
  by code_simp

lemma filename_hello: "filename (dateNow tick) hello = ''1700000000000.txt''"
  by (simp add: filename_def hello_def tick_def quiet_def toDecimal_tick extname_a_txt)

lemma fileFilter_None:
  "fileFilter opts file = None \<longleftrightarrow>
     allowedMimeTypes opts = [] \<or> mimetype file \<in> set (allowedMimeTypes opts)"
  by (auto simp: fileFilter_def)

lemma fileFilter_Some:
  "fileFilter opts file = Some msg \<longleftrightarrow>
     allowedMimeTypes opts \<noteq> [] \<and> mimetype file \<notin> set (allowedMimeTypes opts) \<and>
     msg = ''File type '' @ mimetype file @ '' not allowed''"
  by (auto simp: fileFilter_def)

lemma postUpload_rejected_type:
  "fileFilter (options srv) file = Some msg \<Longrightarrow>
     postUpload srv env (Some file) = (Response 400 (ErrorResponse msg), [], srv)"
  by (simp add: postUpload_def uploadSingle_def)

lemma postUpload_too_large:
  "fileFilter (options srv) file = None \<Longrightarrow>
   overLimit srv (length (content file)) (maxFileSize (options srv)) \<Longrightarrow>
     postUpload srv env (Some file) =
       (Response 400 (ErrorResponse ''File too large''),
        [FsWrite (filename (dateNow env) file), FsUnlink (filename (dateNow env) file)],
        srv\<lparr>storageDir := (storageDir srv)(filename (dateNow env) file := None)\<rparr>)"
  by (simp add: postUpload_def uploadSingle_def Let_def)

lemma postUpload_write_failed:
  "fileFilter (options srv) file = None \<Longrightarrow>
   \<not> overLimit srv (length (content file)) (maxFileSize (options srv)) \<Longrightarrow>
   writeError env = Some (msg, leftover) \<Longrightarrow>
     postUpload srv env (Some file) =
       (Response 400 (ErrorResponse msg), [FsWrite (filename (dateNow env) file)],
        srv\<lparr>storageDir := (storageDir srv)(filename (dateNow env) file := leftover)\<rparr>)"
  by (simp add: postUpload_def uploadSingle_def Let_def)

lemma postUpload_insert_failed:
  "fileFilter (options srv) file = None \<Longrightarrow>
   \<not> overLimit srv (length (content file)) (maxFileSize (options srv)) \<Longrightarrow>
   writeError env = None \<Longrightarrow> insertError env = Some err \<Longrightarrow>
     postUpload srv env (Some file) =
       (Response 500 (ErrorResponse ''Server error''),
        [FsWrite (filename (dateNow env) file), DbInsert],
        srv\<lparr>storageDir := (storageDir srv)(filename (dateNow env) file \<mapsto> content file)\<rparr>)"
  by (simp add: postUpload_def uploadSingle_def insertBlob_def Let_def)

lemma postUpload_stored:
  "fileFilter (options srv) file = None \<Longrightarrow>
   \<not> overLimit srv (length (content file)) (maxFileSize (options srv)) \<Longrightarrow>
   writeError env = None \<Longrightarrow> insertError env = None \<Longrightarrow>
     postUpload srv env (Some file) =
       (Response 200 (UploadResponse (nextId (db srv)) ''File uploaded successfully''),
        [FsWrite (filename (dateNow env) file), DbInsert],
        srv\<lparr>storageDir := (storageDir srv)(filename (dateNow env) file \<mapsto> content file),
            db := (db srv)\<lparr>rows := rows (db srv) @
                     [\<lparr>id' = nextId (db srv), original_name = originalname file,
                       mime_type = mimetype file, path = filename (dateNow env) file,
                       upload_timestamp = isoNow env\<rparr>],
                   sequence := nextId (db srv)\<rparr>\<rparr>)"
  by (simp add: postUpload_def uploadSingle_def insertBlob_def Let_def)

text \<open>
  Claim C4, as the code has it. The handler takes the verdict on the size from the upload
  library; let the library find a file over \<^verbatim>\<open>limits.fileSize\<close> exactly when it is longer
  than the limit, as the specification reads it. Then, when the file can be written, the
  upload is answered \<open>File type ... not allowed\<close> exactly when the list of allowed types is
  not empty and does not hold the declared type (compared as text, case and all); it is
  answered \<open>File too large\<close> exactly when the type passes and the content is longer than
  \<^verbatim>\<open>maxFileSize\<close> bytes; and a file of an allowed type (every type, when the list is
  empty) of at most \<^verbatim>\<open>maxFileSize\<close> bytes, the limit included, passes on to the store.
  The type is checked first, so a file that breaks both rules is answered for its type.
\<close>

theorem C4_validation_gate:
  assumes "writeError env = None" and "overLimit srv = longerThan"
  shows "(fst (postUpload srv env (Some file)) =
            Response 400 (ErrorResponse (''File type '' @ mimetype file @ '' not allowed'')) \<longleftrightarrow>
          allowedMimeTypes (options srv) \<noteq> [] \<and>
          mimetype file \<notin> set (allowedMimeTypes (options srv))) \<and>
         (fst (postUpload srv env (Some file)) = Response 400 (ErrorResponse ''File too large'') \<longleftrightarrow>
          (allowedMimeTypes (options srv) = [] \<or>
           mimetype file \<in> set (allowedMimeTypes (options srv))) \<and>
          maxFileSize (options srv) < length (content file)) \<and>
         ((allowedMimeTypes (options srv) = [] \<or>
           mimetype file \<in> set (allowedMimeTypes (options srv))) \<and>
          length (content file) \<le> maxFileSize (options srv) \<longrightarrow>
          fst (postUpload srv env (Some file)) \<in>
            {Response 200 (UploadResponse (nextId (db srv)) ''File uploaded successfully''),
             Response 500 (ErrorResponse ''Server error'')})"
proof (cases "fileFilter (options srv) file")
  case (Some msg)
  then have m: "allowedMimeTypes (options srv) \<noteq> []"
    "mimetype file \<notin> set (allowedMimeTypes (options srv))"
    "msg = ''File type '' @ mimetype file @ '' not allowed''"
    by (simp_all add: fileFilter_Some)
  show ?thesis
    using m by (simp add: postUpload_rejected_type [OF Some])
next
  case None
  then have ok: "allowedMimeTypes (options srv) = [] \<or>
      mimetype file \<in> set (allowedMimeTypes (options srv))"
    by (simp add: fileFilter_None)
  show ?thesis
  proof (cases "maxFileSize (options srv) < length (content file)")
    case True
    then have over: "overLimit srv (length (content file)) (maxFileSize (options srv))"
      by (simp add: assms(2) longerThan_def)
    show ?thesis
      using ok True by (auto simp: postUpload_too_large [OF None over])
  next
    case False
    then have within: "\<not> overLimit srv (length (content file)) (maxFileSize (options srv))"
      by (simp add: assms(2) longerThan_def)
    show ?thesis
    proof (cases "insertError env")
      case None': None
      show ?thesis
        using ok False by (auto simp: postUpload_stored [OF None within assms(1) None'])
    next
      case (Some err)
      show ?thesis
        using ok False by (auto simp: postUpload_insert_failed [OF None within assms(1) Some])
    qed
  qed
qed

lemma fresh_simps:
  "db fresh = \<lparr>rows = [], sequence = 0\<rparr>" "storageDir fresh = Map.empty"
  "options fresh = defaultOptions" "mimeTypes fresh = txtTypes" "overLimit fresh = longerThan"
  by (simp_all add: fresh_def newBlobStorage_def)

lemma tick_simps:
  "dateNow tick = 1700000000000" "isoNow tick = ''2023-11-14T22:13:20.000Z''"
  "writeError tick = None" "insertError tick = None" "getError tick = None"
  "allError tick = None" "deleteError tick = None" "accessError tick = None"
  "sendError tick = None" "unlinkError tick = None"
  by (simp_all add: tick_def quiet_def)

text \<open>
  Claim C4 as the specification states it (too large exactly when the size exceeds the
  limit) fails for a file that also has a type outside the list: twenty bytes of
  \<open>text/plain\<close> against a limit of ten and the list \<open>[image/png]\<close> are refused for the
  type, not for the size.
\<close>

theorem C4_counterexample:
  "maxFileSize (options pngOnly) < length (content longText) \<and>
   fst (postUpload pngOnly tick (Some longText)) =
     Response 400 (ErrorResponse ''File type text/plain not allowed'') \<and>
   fst (postUpload pngOnly tick (Some longText)) \<noteq> Response 400 (ErrorResponse ''File too large'')"
proof -
  have "fileFilter (options pngOnly) longText = Some ''File type text/plain not allowed''"
    by (simp add: fileFilter_def pngOnly_def newBlobStorage_def longText_def)
  then have "postUpload pngOnly tick (Some longText) =
      (Response 400 (ErrorResponse ''File type text/plain not allowed''), [], pngOnly)"
    by (rule postUpload_rejected_type)
  then show ?thesis
    by (simp add: pngOnly_def newBlobStorage_def longText_def)
qed

theorem C4_witness:
  "writeError tick = None \<and>
   overLimit fresh = longerThan \<and>
   allowedMimeTypes (options fresh) = [] \<and>
   length (content hello) \<le> maxFileSize (options fresh) \<and>
   fst (postUpload fresh tick (Some hello)) =
     Response 200 (UploadResponse 1 ''File uploaded successfully'')"
proof -
  have w: "writeError tick = None"
    by (simp add: tick_simps)
  have "fst (postUpload fresh tick (Some hello)) \<noteq> Response 500 (ErrorResponse ''Server error'')"
    by (simp add: postUpload_def uploadSingle_def fileFilter_def insertBlob_def Let_def
        fresh_simps tick_simps defaultOptions_def hello_def)
  moreover have "nextId (db fresh) = 1"
    by (simp add: nextId_def fresh_simps)
  ultimately show ?thesis
    using C4_validation_gate [OF w, of fresh hello]
    by (simp add: fresh_simps tick_simps defaultOptions_def hello_def)
qed

lemma hello_simps:
  "originalname hello = ''a.txt''" "mimetype hello = ''text/plain''" "content hello = ''hello''"
  by (simp_all add: hello_def)

lemma oneBlob_reached:
  "postUpload fresh tick (Some hello) =
     (Response 200 (UploadResponse 1 ''File uploaded successfully''),
      [FsWrite ''1700000000000.txt'', DbInsert], oneBlob)"
proof -
  have "fileFilter (options fresh) hello = None"
    by (simp add: fileFilter_def fresh_simps defaultOptions_def)
  moreover have "\<not> overLimit fresh (length (content hello)) (maxFileSize (options fresh))"
    by (simp add: hello_def fresh_simps defaultOptions_def longerThan_def)
  ultimately have "postUpload fresh tick (Some hello) =
       (Response 200 (UploadResponse (nextId (db fresh)) ''File uploaded successfully''),
        [FsWrite (filename (dateNow tick) hello), DbInsert],
        fresh\<lparr>storageDir := (storageDir fresh)(filename (dateNow tick) hello \<mapsto> content hello),
            db := (db fresh)\<lparr>rows := rows (db fresh) @
                     [\<lparr>id' = nextId (db fresh), original_name = originalname hello,
                       mime_type = mimetype hello, path = filename (dateNow tick) hello,
                       upload_timestamp = isoNow tick\<rparr>],
                   sequence := nextId (db fresh)\<rparr>\<rparr>)"
    by (rule postUpload_stored) (simp_all add: tick_simps)
  moreover have "nextId (db fresh) = 1"
    by (simp add: nextId_def fresh_simps)
  ultimately show ?thesis
    by (simp add: filename_hello tick_simps(2) fresh_def newBlobStorage_def oneBlob_def
        helloRow_def hello_simps)
qed

lemma find_filter_shorter:
  "find P xs = Some x \<Longrightarrow> length (filter (\<lambda>r. \<not> P r) xs) < length xs"
proof (induction xs)
  case Nil
  then show ?case by simp
next
  case (Cons a xs)
  show ?case
  proof (cases "P a")
    case True
    have "length (filter (\<lambda>r. \<not> P r) xs) \<le> length xs" by simp
    with True show ?thesis by (simp add: less_Suc_eq_le)
  next
    case False
    with Cons show ?thesis by simp
  qed
qed

lemma find_filter_none: "find P (filter (\<lambda>r. \<not> P r) xs) = None"
  by (induction xs) auto

lemma deleteBlob_found:
  assumes "find (\<lambda>r. id' r = i) (rows d) = Some row"
  shows "deleteBlob d None i = (Inr True, d\<lparr>rows := filter (\<lambda>r. id' r \<noteq> i) (rows d)\<rparr>)"
  using find_filter_shorter [OF assms] by (simp add: deleteBlob_def Let_def)

text \<open>
  Claim C5. For an identifier whose row exists, \<^verbatim>\<open>DELETE /blob/:id\<close> unlinks the file
  before it deletes the row. If the unlink fails (an error of the file system, or no
  such file), the answer is the error \<open>Failed to delete physical file\<close>, the row was
  never touched and the server is exactly as before. If the unlink succeeds, the delete
  of the row comes after it and the file is gone; if the store does not fail either, the
  answer is the success message and no row with the identifier is left.
\<close>

theorem C5_file_removed_before_row:
  assumes "\<not> invalidId (parseInt idParam)"
    and "getError env = None"
    and "find (\<lambda>r. id' r = intOf (parseInt idParam)) (rows (db srv)) = Some row"
  shows "(unlinkError env \<noteq> None \<or> storageDir srv (path row) = None \<longrightarrow>
            deleteBlobById srv env idParam =
              (Response 500 (ErrorResponse ''Failed to delete physical file''),
               [DbGet (intOf (parseInt idParam)), FsUnlink (path row)], srv)) \<and>
         (unlinkError env = None \<and> storageDir srv (path row) \<noteq> None \<longrightarrow>
            fst (snd (deleteBlobById srv env idParam)) =
              [DbGet (intOf (parseInt idParam)), FsUnlink (path row),
               DbDelete (intOf (parseInt idParam))] \<and>
            storageDir (snd (snd (deleteBlobById srv env idParam))) (path row) = None) \<and>
         (unlinkError env = None \<and> storageDir srv (path row) \<noteq> None \<and> deleteError env = None \<longrightarrow>
            fst (deleteBlobById srv env idParam) =
              Response 200 (MessageResponse ''File deleted successfully'') \<and>
            find (\<lambda>r. id' r = intOf (parseInt idParam))
              (rows (db (snd (snd (deleteBlobById srv env idParam))))) = None)"
proof -
  let ?i = "intOf (parseInt idParam)"
  have g: "getBlob (db srv) (getError env) ?i = Inr (Some row)"
    using assms(2,3) by (simp add: getBlob_def)
  have a: "unlinkError env \<noteq> None \<or> storageDir srv (path row) = None \<Longrightarrow>
      deleteBlobById srv env idParam =
        (Response 500 (ErrorResponse ''Failed to delete physical file''),
         [DbGet ?i, FsUnlink (path row)], srv)"
    using assms(1) g by (auto simp: deleteBlobById_def Let_def unlink_def split: option.splits)
  have b: "unlinkError env = None \<and> storageDir srv (path row) \<noteq> None \<Longrightarrow>
      fst (snd (deleteBlobById srv env idParam)) = [DbGet ?i, FsUnlink (path row), DbDelete ?i] \<and>
      storageDir (snd (snd (deleteBlobById srv env idParam))) (path row) = None"
    using assms(1) g
    by (auto simp: deleteBlobById_def Let_def unlink_def deleteBlob_def
        split: option.splits prod.splits sum.splits)
  have c: "unlinkError env = None \<and> storageDir srv (path row) \<noteq> None \<and> deleteError env = None \<Longrightarrow>
      fst (deleteBlobById srv env idParam) =
        Response 200 (MessageResponse ''File deleted successfully'') \<and>
      find (\<lambda>r. id' r = ?i) (rows (db (snd (snd (deleteBlobById srv env idParam))))) = None"
    using assms(1) g deleteBlob_found [OF assms(3)] find_filter_none [of "\<lambda>r. id' r = ?i"]
    by (auto simp: deleteBlobById_def Let_def unlink_def split: option.splits)
  from a b c show ?thesis by blast
qed

text \<open>
  Claim C6. For a file that passes the type and size rules: if writing it fails, the upload
  is answered with the error of the write, \<^verbatim>\<open>insertBlob\<close> is never called and the table
  is as before; if the write succeeds and the insert fails, the answer is
  \<open>Server error\<close>, the table is as before and the file stays in the storage directory
  under its stored name, with nothing after the insert to remove it.
\<close>

theorem C6_failed_create:
  assumes "fileFilter (options srv) file = None"
    and "\<not> overLimit srv (length (content file)) (maxFileSize (options srv))"
  shows "(writeError env = Some (msg, leftover) \<longrightarrow>
            fst (postUpload srv env (Some file)) = Response 400 (ErrorResponse msg) \<and>
            DbInsert \<notin> set (fst (snd (postUpload srv env (Some file)))) \<and>
            db (snd (snd (postUpload srv env (Some file)))) = db srv) \<and>
         (writeError env = None \<and> insertError env = Some err \<longrightarrow>
            fst (postUpload srv env (Some file)) = Response 500 (ErrorResponse ''Server error'') \<and>
            fst (snd (postUpload srv env (Some file))) =
              [FsWrite (filename (dateNow env) file), DbInsert] \<and>
            db (snd (snd (postUpload srv env (Some file)))) = db srv \<and>
            storageDir (snd (snd (postUpload srv env (Some file)))) (filename (dateNow env) file) =
              Some (content file))"
  using postUpload_write_failed [OF assms, of env msg leftover]
    postUpload_insert_failed [OF assms, of env err]
  by simp

text \<open>
  Claim C7. \<^verbatim>\<open>GET /blob/:id\<close> answers \<open>Blob not found\<close> when no row has the identifier
  and \<open>File not found or inaccessible\<close> when the row exists and its file is missing or
  cannot be read. Both answers carry status 404; their bodies differ, which is how a
  caller tells them apart.
\<close>

theorem C7_file_missing_is_distinct:
  assumes "\<not> invalidId (parseInt idParam)" and "getError env = None"
  shows "(find (\<lambda>r. id' r = intOf (parseInt idParam)) (rows (db srv)) = None \<longrightarrow>
            fst (getBlobById srv env idParam) = Response 404 (ErrorResponse ''Blob not found'')) \<and>
         (\<forall>row. find (\<lambda>r. id' r = intOf (parseInt idParam)) (rows (db srv)) = Some row \<and>
                (storageDir srv (path row) = None \<or> accessError env \<noteq> None) \<longrightarrow>
            fst (getBlobById srv env idParam) =
              Response 404 (ErrorResponse ''File not found or inaccessible'')) \<and>
         Response 404 (ErrorResponse ''File not found or inaccessible'') \<noteq>
           Response 404 (ErrorResponse ''Blob not found'')"
  using assms
  by (auto simp: getBlobById_def Let_def getBlob_def access_def split: option.splits)

lemma valid_1: "\<not> invalidId (parseInt ''1'')"
  by (simp add: parseInt_1 invalidId_def isNaN_def)

lemma oneBlob_simps:
  "db oneBlob = \<lparr>rows = [helloRow], sequence = 1\<rparr>"
  "storageDir oneBlob = [''1700000000000.txt'' \<mapsto> ''hello'']"
  "options oneBlob = defaultOptions" "mimeTypes oneBlob = txtTypes"
  "overLimit oneBlob = longerThan"
  by (simp_all add: oneBlob_def)

lemma orphaned_simps:
  "db orphaned = \<lparr>rows = [helloRow], sequence = 1\<rparr>" "storageDir orphaned = Map.empty"
  "options orphaned = defaultOptions" "mimeTypes orphaned = txtTypes"
  "overLimit orphaned = longerThan"
  by (simp_all add: orphaned_def oneBlob_def)

lemma helloRow_simps:
  "id' helloRow = 1" "path helloRow = ''1700000000000.txt''" "mime_type helloRow = ''text/plain''"
  by (simp_all add: helloRow_def)

theorem C5_witness:
  "deleteBlobById orphaned tick ''1'' =
     (Response 500 (ErrorResponse ''Failed to delete physical file''),
      [DbGet 1, FsUnlink ''1700000000000.txt''], orphaned) \<and>
   fst (deleteBlobById oneBlob tick ''1'') =
     Response 200 (MessageResponse ''File deleted successfully'') \<and>
   fst (snd (deleteBlobById oneBlob tick ''1'')) =
     [DbGet 1, FsUnlink ''1700000000000.txt'', DbDelete 1] \<and>
   rows (db (snd (snd (deleteBlobById oneBlob tick ''1'')))) = []"
proof -
  have g: "getError tick = None" by (simp add: tick_simps)
  have f1: "find (\<lambda>r. id' r = intOf (parseInt ''1'')) (rows (db orphaned)) = Some helloRow"
    by (simp add: parseInt_1 orphaned_simps helloRow_simps)
  have f2: "find (\<lambda>r. id' r = intOf (parseInt ''1'')) (rows (db oneBlob)) = Some helloRow"
    by (simp add: parseInt_1 oneBlob_simps helloRow_simps)
  have r: "rows (db (snd (snd (deleteBlobById oneBlob tick ''1'')))) = []"
    by (simp add: deleteBlobById_def Let_def invalidId_def isNaN_def parseInt_1 getBlob_def
        unlink_def deleteBlob_def tick_simps oneBlob_simps helloRow_simps)
  show ?thesis
    using C5_file_removed_before_row [OF valid_1 g f1] C5_file_removed_before_row [OF valid_1 g f2] r
    by (simp add: parseInt_1 tick_simps orphaned_simps oneBlob_simps helloRow_simps)
qed

theorem C6_witness:
  "fst (postUpload fresh (tick\<lparr>writeError := Some (''ENOSPC'', None)\<rparr>) (Some hello)) =
     Response 400 (ErrorResponse ''ENOSPC'') \<and>
   db (snd (snd (postUpload fresh (tick\<lparr>writeError := Some (''ENOSPC'', None)\<rparr>) (Some hello)))) =
     db fresh \<and>
   fst (postUpload fresh (tick\<lparr>insertError := Some ''SQLITE_FULL''\<rparr>) (Some hello)) =
     Response 500 (ErrorResponse ''Server error'') \<and>
   storageDir (snd (snd (postUpload fresh (tick\<lparr>insertError := Some ''SQLITE_FULL''\<rparr>) (Some hello))))
     ''1700000000000.txt'' = Some ''hello''"
proof -
  have a: "fileFilter (options fresh) hello = None"
    by (simp add: fileFilter_def fresh_simps defaultOptions_def)
  have b: "\<not> overLimit fresh (length (content hello)) (maxFileSize (options fresh))"
    by (simp add: hello_simps fresh_simps defaultOptions_def longerThan_def)
  have n: "filename 1700000000000 hello = ''1700000000000.txt''"
    using filename_hello by (simp add: tick_simps)
  show ?thesis
    using C6_failed_create [OF a b, of "tick\<lparr>writeError := Some (''ENOSPC'', None)\<rparr>" "''ENOSPC''" None "''x''"]
      C6_failed_create [OF a b, of "tick\<lparr>insertError := Some ''SQLITE_FULL''\<rparr>" "''x''" None "''SQLITE_FULL''"]
    by (simp add: n tick_simps hello_simps)
qed

theorem C7_witness:
  "fst (getBlobById orphaned tick ''1'') =
     Response 404 (ErrorResponse ''File not found or inaccessible'') \<and>
   fst (getBlobById fresh tick ''1'') = Response 404 (ErrorResponse ''Blob not found'')"
proof -
  have g: "getError tick = None" by (simp add: tick_simps)
  have f1: "find (\<lambda>r. id' r = intOf (parseInt ''1'')) (rows (db orphaned)) = Some helloRow"
    by (simp add: parseInt_1 orphaned_simps helloRow_simps)
  have f2: "find (\<lambda>r. id' r = intOf (parseInt ''1'')) (rows (db fresh)) = None"
    by (simp add: fresh_simps)
  have m: "storageDir orphaned (path helloRow) = None"
    by (simp add: orphaned_simps)
  show ?thesis
    using C7_file_missing_is_distinct [OF valid_1 g, of orphaned]
      C7_file_missing_is_distinct [OF valid_1 g, of fresh] f1 f2 m
    by blast
qed

section \<open>Listing, round trip and identifiers\<close>

lemma postUpload_rows:
  "length (rows (db (snd (snd (postUpload srv env req))))) =
     length (rows (db srv)) + (if succeeded (fst (postUpload srv env req)) then 1 else 0)"
  by (simp add: postUpload_def uploadSingle_def insertBlob_def Let_def
      split: option.splits prod.splits sum.splits)

lemma uploads_rows:
  "length (rows (db (snd (uploads srv reqs)))) =
     length (rows (db srv)) + length (filter succeeded (fst (uploads srv reqs)))"
proof (induction reqs arbitrary: srv)
  case Nil
  then show ?case by simp
next
  case (Cons a reqs)
  obtain env req where a: "a = (env, req)" by (cases a)
  obtain r evs srv' where p: "postUpload srv env req = (r, evs, srv')"
    by (cases "postUpload srv env req")
  obtain rs srv'' where u: "uploads srv' reqs = (rs, srv'')"
    by (cases "uploads srv' reqs")
  have "length (rows (db srv')) = length (rows (db srv)) + (if succeeded r then 1 else 0)"
    using postUpload_rows [of srv env req] p by simp
  moreover have "length (rows (db srv'')) = length (rows (db srv')) + length (filter succeeded rs)"
    using Cons.IH [of srv'] u by simp
  ultimately show ?case
    by (simp add: a p u)
qed

lemma getAllBlobs_descending:
  "sorted_wrt (\<lambda>a b. upload_timestamp b \<le> upload_timestamp a)
     (rev (sort_key upload_timestamp rs))"
proof -
  have "sorted (map upload_timestamp (sort_key upload_timestamp rs))"
    by (rule sorted_sort_key)
  then have "sorted_wrt (\<lambda>a b. upload_timestamp a \<le> upload_timestamp b)
      (sort_key upload_timestamp rs)"
    by (simp add: sorted_wrt_map)
  then show ?thesis
    by (simp add: sorted_wrt_rev)
qed

text \<open>
  Claim C8. When the store does not fail, \<^verbatim>\<open>GET /files\<close> answers with the rows of the
  table, each exactly once, ordered by their \<^verbatim>\<open>upload_timestamp\<close> text from the greatest
  to the least (the newest first, the timestamps being ISO texts); and on a server that
  started empty and has only seen uploads, the number of rows listed is the number of
  uploads that were answered with success.
\<close>

theorem C8_list_newest_first:
  assumes "allError env = None"
  shows "\<exists>xs. getFiles srv env = (Response 200 (RowsResponse xs), [DbAll], srv) \<and>
           mset xs = mset (rows (db srv)) \<and>
           sorted_wrt (\<lambda>a b. upload_timestamp b \<le> upload_timestamp a) xs \<and>
           (\<forall>opts types test reqs.
              snd (uploads (newBlobStorage opts types test) reqs) = srv \<longrightarrow>
              length xs = length (filter succeeded (fst (uploads (newBlobStorage opts types test) reqs))))"
proof -
  let ?xs = "rev (sort_key upload_timestamp (rev (rows (db srv))))"
  have "getFiles srv env = (Response 200 (RowsResponse ?xs), [DbAll], srv)"
    using assms by (simp add: getFiles_def getAllBlobs_def)
  moreover have "mset ?xs = mset (rows (db srv))"
    by simp
  moreover have "sorted_wrt (\<lambda>a b. upload_timestamp b \<le> upload_timestamp a) ?xs"
    by (rule getAllBlobs_descending)
  moreover have "length ?xs = length (filter succeeded (fst (uploads (newBlobStorage opts types test) reqs)))"
    if "snd (uploads (newBlobStorage opts types test) reqs) = srv" for opts types test reqs
    using uploads_rows [of "newBlobStorage opts types test" reqs] that
    by (simp add: newBlobStorage_def)
  ultimately show ?thesis by blast
qed

lemma tock_simps:
  "dateNow tock = 1700000000001" "isoNow tock = ''2023-11-14T22:13:20.001Z''"
  "writeError tock = None" "insertError tock = None"
  by (simp_all add: tock_def quiet_def)

lemma world_simps:
  "originalname world = ''b.txt''" "mimetype world = ''text/plain''" "content world = ''world''"
  by (simp_all add: world_def)

lemma extname_b_txt: "extname ''b.txt'' = ''.txt''"
  by code_simp

lemma toDecimal_tock: "toDecimal 1700000000001 = ''1700000000001''"
  by (simp add: toDecimal.simps digitChar_def)

lemma filename_world: "filename (dateNow tock) world = ''1700000000001.txt''"
  by (simp add: filename_def world_simps tock_simps toDecimal_tock extname_b_txt)

lemma no_file_uploaded:
  "postUpload srv env None = (Response 400 (ErrorResponse ''No file uploaded''), [], srv)"
  by (simp add: postUpload_def uploadSingle_def)

lemma twoBlobs_reached:
  "postUpload oneBlob tock (Some world) =
     (Response 200 (UploadResponse 2 ''File uploaded successfully''),
      [FsWrite ''1700000000001.txt'', DbInsert], twoBlobs)"
proof -
  have "fileFilter (options oneBlob) world = None"
    by (simp add: fileFilter_def oneBlob_simps defaultOptions_def)
  moreover have "\<not> overLimit oneBlob (length (content world)) (maxFileSize (options oneBlob))"
    by (simp add: world_simps oneBlob_simps defaultOptions_def longerThan_def)
  ultimately have "postUpload oneBlob tock (Some world) =
       (Response 200 (UploadResponse (nextId (db oneBlob)) ''File uploaded successfully''),
        [FsWrite (filename (dateNow tock) world), DbInsert],
        oneBlob\<lparr>storageDir := (storageDir oneBlob)(filename (dateNow tock) world \<mapsto> content world),
            db := (db oneBlob)\<lparr>rows := rows (db oneBlob) @
                     [\<lparr>id' = nextId (db oneBlob), original_name = originalname world,
                       mime_type = mimetype world, path = filename (dateNow tock) world,
                       upload_timestamp = isoNow tock\<rparr>],
                   sequence := nextId (db oneBlob)\<rparr>\<rparr>)"
    by (rule postUpload_stored) (simp_all add: tock_simps)
  moreover have "nextId (db oneBlob) = 2"
    by (simp add: nextId_def oneBlob_simps helloRow_simps)
  ultimately show ?thesis
    by (simp add: filename_world tock_simps(2) oneBlob_def twoBlobs_def worldRow_def world_simps)
qed

lemma threeRequests_run:
  "uploads fresh threeRequests =
     ([Response 200 (UploadResponse 1 ''File uploaded successfully''),
       Response 400 (ErrorResponse ''No file uploaded''),
       Response 200 (UploadResponse 2 ''File uploaded successfully'')], twoBlobs)"
  by (simp add: threeRequests_def oneBlob_reached no_file_uploaded twoBlobs_reached)

lemma twoBlobs_listed:
  "getFiles twoBlobs tick = (Response 200 (RowsResponse [worldRow, helloRow]), [DbAll], twoBlobs)"
proof -
  have "upload_timestamp helloRow < upload_timestamp worldRow"
    by (simp add: helloRow_def worldRow_def)
  then have "\<not> upload_timestamp worldRow \<le> upload_timestamp helloRow"
    by (simp add: not_le)
  then have "sort_key upload_timestamp [worldRow, helloRow] = [helloRow, worldRow]"
    by simp
  then show ?thesis
    by (simp add: getFiles_def getAllBlobs_def tick_simps twoBlobs_def)
qed

theorem C8_witness:
  "allError tick = None \<and>
   snd (uploads (newBlobStorage defaultOptions txtTypes longerThan) threeRequests) = twoBlobs \<and>
   getFiles twoBlobs tick = (Response 200 (RowsResponse [worldRow, helloRow]), [DbAll], twoBlobs) \<and>
   length (filter succeeded (fst (uploads (newBlobStorage defaultOptions txtTypes longerThan) threeRequests))) = 2"
proof -
  have h: "allError tick = None" by (simp add: tick_simps)
  have r: "uploads (newBlobStorage defaultOptions txtTypes longerThan) threeRequests =
     ([Response 200 (UploadResponse 1 ''File uploaded successfully''),
       Response 400 (ErrorResponse ''No file uploaded''),
       Response 200 (UploadResponse 2 ''File uploaded successfully'')], twoBlobs)"
    using threeRequests_run by (simp add: fresh_def)
  show ?thesis
    using C8_list_newest_first [OF h, of twoBlobs] twoBlobs_listed h r
    by simp
qed

lemma fold_max_ge: "(a :: int) \<le> fold max xs a"
proof (induction xs arbitrary: a)
  case Nil
  then show ?case by simp
next
  case (Cons x xs)
  have "a \<le> max x a" by simp
  also have "\<dots> \<le> fold max xs (max x a)" by (rule Cons.IH)
  finally show ?case by simp
qed

lemma fold_max_member: "x \<in> set xs \<Longrightarrow> (x :: int) \<le> fold max xs a"
proof (induction xs arbitrary: a)
  case Nil
  then show ?case by simp
next
  case (Cons y ys)
  show ?case
  proof (cases "x = y")
    case True
    have "x \<le> max y a" using True by simp
    also have "\<dots> \<le> fold max ys (max y a)" by (rule fold_max_ge)
    finally show ?thesis by simp
  next
    case False
    with Cons.prems have "x \<in> set ys" by simp
    then show ?thesis using Cons.IH by simp
  qed
qed

lemma nextId_above_rows: "r \<in> set (rows d) \<Longrightarrow> id' r < nextId d"
  using fold_max_member [of "id' r" "map id' (rows d)" "sequence d"]
  by (simp add: nextId_def)

lemma find_append_last:
  "\<forall>x \<in> set xs. \<not> P x \<Longrightarrow> P y \<Longrightarrow> find P (xs @ [y]) = Some y"
  by (induction xs) auto

lemma parseInt_id:
  assumes "0 < i" and "i < 2 ^ 53"
  shows "parseInt (toDecimal (nat i)) = Num i"
proof -
  have "parseInt (toDecimal (nat i)) = toNumber (int (nat i))"
    by (rule parseInt_toDecimal)
  also have "int (nat i) = i" using assms(1) by simp
  also have "toNumber i = Num i"
    using assms by (intro toNumber_small) simp_all
  finally show ?thesis .
qed

lemma postUpload_success:
  assumes "postUpload srv env (Some file) = (Response 200 (UploadResponse i msg), evs, srv')"
  shows "i = nextId (db srv) \<and>
         srv' = srv\<lparr>storageDir := (storageDir srv)(filename (dateNow env) file \<mapsto> content file),
            db := (db srv)\<lparr>rows := rows (db srv) @
                     [\<lparr>id' = nextId (db srv), original_name = originalname file,
                       mime_type = mimetype file, path = filename (dateNow env) file,
                       upload_timestamp = isoNow env\<rparr>],
                   sequence := nextId (db srv)\<rparr>\<rparr>"
  using assms
  by (auto simp: postUpload_def uploadSingle_def insertBlob_def Let_def
      split: option.splits prod.splits sum.splits if_splits)

text \<open>
  Claim C1, as the code has it. After an upload answered with identifier \<open>i\<close> (positive
  and below \<open>2^53\<close>), a download of \<open>i\<close> made in the state that upload left, before any
  other request is served, and in which neither the store nor the file system fails,
  returns exactly the uploaded bytes. The \<^verbatim>\<open>Content-Type\<close> is the one the sending
  library looks up for the stored name, that is for the clock reading followed by the
  extension of the original name; the \<^verbatim>\<open>mime_type\<close> of the row, which is the type the
  client declared, takes no part in it. (A later upload that derives the same stored name
  replaces or removes the file, as the example for claim C2 shows; the statement says
  nothing of downloads made after such requests.)
\<close>

theorem C1_round_trip:
  assumes "postUpload srv env (Some file) = (Response 200 (UploadResponse i msg), evs, srv')"
    and "0 < i" and "i < 2 ^ 53"
    and "getError env' = None" and "accessError env' = None" and "sendError env' = None"
  shows "getBlobById srv' env' (toDecimal (nat i)) =
           (Response 200
              (FileResponse
                 (contentType (mimeTypes srv) (toDecimal (dateNow env) @ extname (originalname file)))
                 (content file)),
            [DbGet i,
             FsAccess (toDecimal (dateNow env) @ extname (originalname file)),
             FsSend (toDecimal (dateNow env) @ extname (originalname file))],
            srv')"
proof -
  let ?name = "filename (dateNow env) file"
  let ?row = "\<lparr>id' = nextId (db srv), original_name = originalname file,
                mime_type = mimetype file, path = ?name, upload_timestamp = isoNow env\<rparr>"
  from postUpload_success [OF assms(1)]
  have i: "i = nextId (db srv)"
    and s: "srv' = srv\<lparr>storageDir := (storageDir srv)(?name \<mapsto> content file),
            db := (db srv)\<lparr>rows := rows (db srv) @ [?row], sequence := nextId (db srv)\<rparr>\<rparr>"
    by simp_all
  have p: "parseInt (toDecimal (nat i)) = Num i"
    using assms(2,3) by (rule parseInt_id)
  have v: "\<not> invalidId (Num i)"
    using assms(2) by (simp add: invalidId_def isNaN_def)
  have "\<forall>r \<in> set (rows (db srv)). \<not> id' r = i"
    using nextId_above_rows [of _ "db srv"] i by fastforce
  then have "find (\<lambda>r. id' r = i) (rows (db srv) @ [?row]) = Some ?row"
    by (rule find_append_last) (simp add: i)
  then have g: "getBlob (db srv') (getError env') i = Inr (Some ?row)"
    using assms(4) by (simp add: getBlob_def s)
  have a: "access (storageDir srv') (accessError env') ?name = None"
    using assms(5) by (simp add: access_def s)
  have f: "sendFile (storageDir srv') (mimeTypes srv') (sendError env') ?name =
      Inr (contentType (mimeTypes srv) ?name, content file)"
    using assms(6) by (simp add: sendFile_def s)
  show ?thesis
    by (simp add: getBlobById_def p v g a f) (simp add: filename_def)
qed

lemma getBlobById_found:
  assumes "parseInt p = Num i" and "0 < i" and "getError env = None"
    and "find (\<lambda>r. id' r = i) (rows (db srv)) = Some row"
    and "accessError env = None" and "sendError env = None"
    and "storageDir srv (path row) = Some data"
  shows "getBlobById srv env p =
           (Response 200 (FileResponse (contentType (mimeTypes srv) (path row)) data),
            [DbGet i, FsAccess (path row), FsSend (path row)], srv)"
  using assms
  by (simp add: getBlobById_def invalidId_def isNaN_def getBlob_def access_def sendFile_def)

lemma contentType_txt: "contentType txtTypes ''1700000000000.txt'' = ''text/plain; charset=utf-8''"
  by (simp add: contentType_def extname_stamped txtTypes_def)

lemma parseInt_fraction: "parseInt ''1.5'' = Num 1"
proof -
  have "parseInt ''1.5'' = toNumber 1"
    by (simp add: parseInt_def stripSign_def stripPrefix_def isWhiteSpace_def isRadixDigit_def
        digitValue_def radixValue_def)
  then show ?thesis by (simp add: toNumber_small)
qed

lemma mislabelled_simps:
  "originalname mislabelled = ''a.txt''" "mimetype mislabelled = ''application/json''"
  "content mislabelled = ''hello''"
  by (simp_all add: mislabelled_def)

lemma other_simps:
  "originalname other = ''a.txt''" "mimetype other = ''text/plain''" "content other = ''other''"
  by (simp_all add: other_def)

lemma filename_a_txt:
  "originalname file = ''a.txt'' \<Longrightarrow> filename (dateNow tick) file = ''1700000000000.txt''"
  by (simp add: filename_def tick_simps toDecimal_tick extname_a_txt)

lemma oneJson_reached:
  "postUpload fresh tick (Some mislabelled) =
     (Response 200 (UploadResponse 1 ''File uploaded successfully''),
      [FsWrite ''1700000000000.txt'', DbInsert], oneJson)"
proof -
  have "fileFilter (options fresh) mislabelled = None"
    by (simp add: fileFilter_def fresh_simps defaultOptions_def)
  moreover have "\<not> overLimit fresh (length (content mislabelled)) (maxFileSize (options fresh))"
    by (simp add: mislabelled_simps fresh_simps defaultOptions_def longerThan_def)
  ultimately have "postUpload fresh tick (Some mislabelled) =
       (Response 200 (UploadResponse (nextId (db fresh)) ''File uploaded successfully''),
        [FsWrite (filename (dateNow tick) mislabelled), DbInsert],
        fresh\<lparr>storageDir := (storageDir fresh)(filename (dateNow tick) mislabelled \<mapsto> content mislabelled),
            db := (db fresh)\<lparr>rows := rows (db fresh) @
                     [\<lparr>id' = nextId (db fresh), original_name = originalname mislabelled,
                       mime_type = mimetype mislabelled, path = filename (dateNow tick) mislabelled,
                       upload_timestamp = isoNow tick\<rparr>],
                   sequence := nextId (db fresh)\<rparr>\<rparr>)"
    by (rule postUpload_stored) (simp_all add: tick_simps)
  moreover have "nextId (db fresh) = 1"
    by (simp add: nextId_def fresh_simps)
  ultimately show ?thesis
    by (simp add: filename_a_txt mislabelled_simps tick_simps(2) fresh_def newBlobStorage_def
        oneJson_def oneBlob_def jsonRow_def helloRow_def)
qed

lemma collided_reached:
  "postUpload oneBlob tick (Some other) =
     (Response 200 (UploadResponse 2 ''File uploaded successfully''),
      [FsWrite ''1700000000000.txt'', DbInsert], collided)"
proof -
  have "fileFilter (options oneBlob) other = None"
    by (simp add: fileFilter_def oneBlob_simps defaultOptions_def)
  moreover have "\<not> overLimit oneBlob (length (content other)) (maxFileSize (options oneBlob))"
    by (simp add: other_simps oneBlob_simps defaultOptions_def longerThan_def)
  ultimately have "postUpload oneBlob tick (Some other) =
       (Response 200 (UploadResponse (nextId (db oneBlob)) ''File uploaded successfully''),
        [FsWrite (filename (dateNow tick) other), DbInsert],
        oneBlob\<lparr>storageDir := (storageDir oneBlob)(filename (dateNow tick) other \<mapsto> content other),
            db := (db oneBlob)\<lparr>rows := rows (db oneBlob) @
                     [\<lparr>id' = nextId (db oneBlob), original_name = originalname other,
                       mime_type = mimetype other, path = filename (dateNow tick) other,
                       upload_timestamp = isoNow tick\<rparr>],
                   sequence := nextId (db oneBlob)\<rparr>\<rparr>)"
    by (rule postUpload_stored) (simp_all add: tick_simps)
  moreover have "nextId (db oneBlob) = 2"
    by (simp add: nextId_def oneBlob_simps helloRow_simps)
  ultimately show ?thesis
    by (simp add: filename_a_txt other_simps tick_simps(2) collided_def oneBlob_def otherRow_def
        helloRow_def)
qed

text \<open>
  Claim C1 as the specification states it (the download carries the declared type stored
  in the row) fails: a file named \<open>a.txt\<close> and declared \<open>application/json\<close> is stored
  with that type in its row and served as \<open>text/plain; charset=utf-8\<close>.
\<close>

theorem C1_counterexample:
  "postUpload fresh tick (Some mislabelled) =
     (Response 200 (UploadResponse 1 ''File uploaded successfully''),
      [FsWrite ''1700000000000.txt'', DbInsert], oneJson) \<and>
   map mime_type (rows (db oneJson)) = [''application/json''] \<and>
   fst (getBlobById oneJson tick ''1'') =
     Response 200 (FileResponse ''text/plain; charset=utf-8'' ''hello'')"
proof -
  have "getBlobById oneJson tick ''1'' =
      (Response 200 (FileResponse (contentType (mimeTypes oneJson) (path jsonRow)) ''hello''),
       [DbGet 1, FsAccess (path jsonRow), FsSend (path jsonRow)], oneJson)"
    by (rule getBlobById_found [OF parseInt_1])
      (simp_all add: tick_simps oneJson_def oneBlob_def jsonRow_def helloRow_def)
  then show ?thesis
    by (simp add: oneJson_reached contentType_txt oneJson_def oneBlob_def jsonRow_def helloRow_def)
qed

theorem C1_witness:
  "postUpload fresh tick (Some hello) =
     (Response 200 (UploadResponse 1 ''File uploaded successfully''),
      [FsWrite ''1700000000000.txt'', DbInsert], oneBlob) \<and>
   getBlobById oneBlob tick ''1'' =
     (Response 200 (FileResponse ''text/plain; charset=utf-8'' ''hello''),
      [DbGet 1, FsAccess ''1700000000000.txt'', FsSend ''1700000000000.txt''], oneBlob)"
proof -
  have one: "toDecimal (Suc 0) = ''1''"
    by (simp add: toDecimal.simps digitChar_def)
  have "getBlobById oneBlob tick (toDecimal (nat 1)) =
           (Response 200
              (FileResponse
                 (contentType (mimeTypes fresh) (toDecimal (dateNow tick) @ extname (originalname hello)))
                 (content hello)),
            [DbGet 1,
             FsAccess (toDecimal (dateNow tick) @ extname (originalname hello)),
             FsSend (toDecimal (dateNow tick) @ extname (originalname hello))],
            oneBlob)"
    by (rule C1_round_trip [OF oneBlob_reached]) (simp_all add: tick_simps)
  then show ?thesis
    using filename_hello
    by (simp add: one oneBlob_reached filename_def fresh_simps hello_simps contentType_txt)
qed

text \<open>
  Claim C2 fails on the code. Two uploads of a file named \<open>a.txt\<close> whose filename callback
  reads the same millisecond both succeed, with identifiers 1 and 2, and both rows point
  at the stored name \<open>1700000000000.txt\<close>; the second write replaced the first, so a
  download of identifier 1 returns the bytes of the second upload.
\<close>

theorem C2_same_tick_same_name:
  "postUpload fresh tick (Some hello) =
     (Response 200 (UploadResponse 1 ''File uploaded successfully''),
      [FsWrite ''1700000000000.txt'', DbInsert], oneBlob) \<and>
   postUpload oneBlob tick (Some other) =
     (Response 200 (UploadResponse 2 ''File uploaded successfully''),
      [FsWrite ''1700000000000.txt'', DbInsert], collided) \<and>
   map path (rows (db collided)) = [''1700000000000.txt'', ''1700000000000.txt''] \<and>
   fst (getBlobById collided tick ''1'') =
     Response 200 (FileResponse ''text/plain; charset=utf-8'' ''other'')"
proof -
  have "getBlobById collided tick ''1'' =
      (Response 200 (FileResponse (contentType (mimeTypes collided) (path helloRow)) ''other''),
       [DbGet 1, FsAccess (path helloRow), FsSend (path helloRow)], collided)"
    by (rule getBlobById_found [OF parseInt_1])
      (simp_all add: tick_simps collided_def helloRow_def)
  then show ?thesis
    by (simp add: oneBlob_reached collided_reached contentType_txt collided_def otherRow_def
        helloRow_def)
qed

text \<open>
  Claim C3 fails on the code. \<^verbatim>\<open>parseInt\<close> reads \<open>1.5\<close> as 1 before the identifier is
  checked, so \<^verbatim>\<open>GET /blob/1.5\<close> looks identifier 1 up and serves its file, and
  \<^verbatim>\<open>DELETE /blob/1.5\<close> deletes it.
\<close>

theorem C3_fraction_reaches_the_store:
  "getBlobById oneBlob tick ''1.5'' =
     (Response 200 (FileResponse ''text/plain; charset=utf-8'' ''hello''),
      [DbGet 1, FsAccess ''1700000000000.txt'', FsSend ''1700000000000.txt''], oneBlob) \<and>
   fst (deleteBlobById oneBlob tick ''1.5'') =
     Response 200 (MessageResponse ''File deleted successfully'') \<and>
   rows (db (snd (snd (deleteBlobById oneBlob tick ''1.5'')))) = []"
proof -
  have "getBlobById oneBlob tick ''1.5'' =
      (Response 200 (FileResponse (contentType (mimeTypes oneBlob) (path helloRow)) ''hello''),
       [DbGet 1, FsAccess (path helloRow), FsSend (path helloRow)], oneBlob)"
    by (rule getBlobById_found [OF parseInt_fraction])
      (simp_all add: tick_simps oneBlob_simps helloRow_simps)
  moreover have "fst (deleteBlobById oneBlob tick ''1.5'') =
       Response 200 (MessageResponse ''File deleted successfully'') \<and>
     rows (db (snd (snd (deleteBlobById oneBlob tick ''1.5'')))) = []"
    by (simp add: deleteBlobById_def Let_def invalidId_def isNaN_def parseInt_fraction getBlob_def
        unlink_def deleteBlob_def tick_simps oneBlob_simps helloRow_simps)
  ultimately show ?thesis
    by (simp add: contentType_txt oneBlob_simps helloRow_simps)
qed

end
